theory Spec2Isabelle
  imports Complex_Main "HOL-Library.Word"
begin

section \<open>Errors, panics and outcomes\<close>

text \<open>
  The sentinel errors of \<^verbatim>\<open>error.go\<close>, the two error causes of \<^verbatim>\<open>strconv\<close>
  (\<^verbatim>\<open>ErrSyntax\<close>, \<^verbatim>\<open>ErrRange\<close>, which \<^verbatim>\<open>strconv\<close> wraps in a \<^verbatim>\<open>*NumError\<close>),
  and any error produced by an external collaborator (the Consul client,
  \<^verbatim>\<open>time.Parse\<close>, \<^verbatim>\<open>strconv.ParseFloat\<close>).

  Modelled from the spec: \<^verbatim>\<open>ErrEmptyLayout\<close> is returned by \<^verbatim>\<open>SetTimeLayout\<close> but
  its declaration is missing from \<^verbatim>\<open>error.go\<close>; the spec calls it a dedicated error
  for an empty layout, so it is one more sentinel here.
\<close>

datatype error =
    ErrNilClient
  | ErrNonPointerType
  | ErrUnhandledKind
  | ErrOverflowSet
  | ErrEmptyLayout
  | ErrSyntax
  | ErrRange
  | ExternalError string

text \<open>
  A Go function either returns (with a nil or a non-nil error) or panics. The panics
  that the code of this package can reach are a nil pointer dereference and the panics
  of package \<^verbatim>\<open>reflect\<close>: \<^verbatim>\<open>Value.Set\<close> with a value that is not assignable to
  the destination's type, and a method applied to a Value of the wrong kind.
\<close>

datatype panic = NilPointerDereference | NotAssignable | WrongKind

datatype outcome = Ok | Err error | Panic panic

section \<open>Types and values as package reflect sees them\<close>

datatype Kind =
    KInvalid | KBool
  | KInt | KInt8 | KInt16 | KInt32 | KInt64
  | KUint | KUint8 | KUint16 | KUint32 | KUint64 | KUintptr
  | KFloat32 | KFloat64 | KComplex64 | KComplex128
  | KArray | KChan | KFunc | KInterface | KMap | KPtr | KSlice | KString | KStruct
  | KUnsafePointer

datatype IntKind = I | I8 | I16 | I32 | I64
datatype UintKind = U | U8 | U16 | U32 | U64 | Uptr
datatype FloatKind = F32 | F64
datatype OtherKind =
  Complex64 | Complex128 | Array | Chan | Func | Map | Slice | UnsafePointer

text \<open>
  A struct field as \<^verbatim>\<open>reflect.StructField\<close> describes it: its name, whether it is
  exported (\<^verbatim>\<open>PkgPath\<close> empty), and its tag, kept as the list of its key/value pairs.
\<close>

record StructField =
  Name :: string
  Exported :: bool
  Tag :: "(string \<times> string) list"

text \<open>\<^verbatim>\<open>StructTag.Get\<close>: the value of the key, the empty string when the key is absent.\<close>

definition Tag_Get :: "(string \<times> string) list \<Rightarrow> string \<Rightarrow> string" where
  "Tag_Get tag key = (case map_of tag key of Some v \<Rightarrow> v | None \<Rightarrow> [])"

text \<open>
  The universe of Go types of the model: the predeclared boolean, integer, floating-point
  and string types, the empty interface, pointers, struct types (with the text that
  \<^verbatim>\<open>Type.String\<close> gives and the fields in declaration order), \<^verbatim>\<open>time.Time\<close>, and
  types of the kinds the library does not handle (their element types play no role).
  \<open>TInvalid\<close> stands for "no type", the type of the zero \<^verbatim>\<open>reflect.Value\<close>.
  Defined (named) non-struct types and interfaces with methods are outside the model.
\<close>

datatype gotype =
    TInvalid
  | TBool
  | TInt IntKind
  | TUint UintKind
  | TFloat FloatKind
  | TString
  | TInterface
  | TPtr gotype
  | TStruct string "(StructField \<times> gotype) list"
  | TTime
  | TOther OtherKind

text \<open>A \<^verbatim>\<open>float64\<close>: a finite value (a rational), an infinity or a NaN.\<close>

datatype float64 = Finite rat | PosInf | NegInf | NaN

text \<open>A \<^verbatim>\<open>time.Time\<close>: the zero time or an instant (nanoseconds since the Unix epoch).\<close>

datatype Time = ZeroTime | Instant int

text \<open>
  A \<^verbatim>\<open>reflect.Value\<close> together with the storage it refers to. Values describe
  themselves: an integer carries its kind, a pointer the type of its pointee, a struct
  the text of its type and its fields with their declarations. A pointer is nil
  (\<open>None\<close>) or owns the cell it points to: the library never writes through a pointer
  it finds in a field (it replaces the pointer by a fresh one), and the target of
  \<^verbatim>\<open>Parse\<close> is followed along one chain, so sharing between cells plays no role.
  \<open>VInvalid\<close> is the zero \<^verbatim>\<open>reflect.Value\<close> (what \<^verbatim>\<open>ValueOf(nil)\<close> and \<^verbatim>\<open>Elem\<close>
  of a nil pointer give). An interface slot is nil or holds a dynamic value.
\<close>

datatype govalue =
    VInvalid
  | VBool bool
  | VInt IntKind int
  | VUint UintKind nat
  | VFloat FloatKind float64
  | VString string
  | VInterface "govalue option"
  | VPtr gotype "govalue option"
  | VStruct string "(StructField \<times> govalue) list"
  | VTime Time
  | VOther OtherKind

fun KindT :: "gotype \<Rightarrow> Kind" where
  "KindT TInvalid = KInvalid"
| "KindT TBool = KBool"
| "KindT (TInt I) = KInt"
| "KindT (TInt I8) = KInt8"
| "KindT (TInt I16) = KInt16"
| "KindT (TInt I32) = KInt32"
| "KindT (TInt I64) = KInt64"
| "KindT (TUint U) = KUint"
| "KindT (TUint U8) = KUint8"
| "KindT (TUint U16) = KUint16"
| "KindT (TUint U32) = KUint32"
| "KindT (TUint U64) = KUint64"
| "KindT (TUint Uptr) = KUintptr"
| "KindT (TFloat F32) = KFloat32"
| "KindT (TFloat F64) = KFloat64"
| "KindT TString = KString"
| "KindT TInterface = KInterface"
| "KindT (TPtr t) = KPtr"
| "KindT (TStruct n fs) = KStruct"
| "KindT TTime = KStruct"
| "KindT (TOther Complex64) = KComplex64"
| "KindT (TOther Complex128) = KComplex128"
| "KindT (TOther Array) = KArray"
| "KindT (TOther Chan) = KChan"
| "KindT (TOther Func) = KFunc"
| "KindT (TOther Map) = KMap"
| "KindT (TOther Slice) = KSlice"
| "KindT (TOther UnsafePointer) = KUnsafePointer"

text \<open>\<^verbatim>\<open>Value.Type\<close>.\<close>

primrec Type :: "govalue \<Rightarrow> gotype" where
  "Type VInvalid = TInvalid"
| "Type (VBool b) = TBool"
| "Type (VInt k n) = TInt k"
| "Type (VUint k n) = TUint k"
| "Type (VFloat k x) = TFloat k"
| "Type (VString s) = TString"
| "Type (VInterface d) = TInterface"
| "Type (VPtr t p) = TPtr t"
| "Type (VStruct n fs) = TStruct n (map (map_prod id Type) fs)"
| "Type (VTime x) = TTime"
| "Type (VOther k) = TOther k"

text \<open>\<^verbatim>\<open>Value.Kind\<close> and \<^verbatim>\<open>Value.IsValid\<close>.\<close>

definition Kind :: "govalue \<Rightarrow> Kind" where
  "Kind v = KindT (Type v)"

definition IsValid :: "govalue \<Rightarrow> bool" where
  "IsValid v = (v \<noteq> VInvalid)"

text \<open>\<^verbatim>\<open>Type.String\<close>, as far as the library reads it: the text of a struct type.\<close>

fun String :: "gotype \<Rightarrow> string" where
  "String (TStruct n fs) = n"
| "String TTime = ''time.Time''"
| "String t = []"

text \<open>The zero value of a type: what the cell that \<^verbatim>\<open>reflect.New\<close> allocates holds.\<close>

primrec zero :: "gotype \<Rightarrow> govalue" where
  "zero TInvalid = VInvalid"
| "zero TBool = VBool False"
| "zero (TInt k) = VInt k 0"
| "zero (TUint k) = VUint k 0"
| "zero (TFloat k) = VFloat k (Finite 0)"
| "zero TString = VString []"
| "zero TInterface = VInterface None"
| "zero (TPtr t) = VPtr t None"
| "zero (TStruct n fs) = VStruct n (map (map_prod id zero) fs)"
| "zero TTime = VTime ZeroTime"
| "zero (TOther k) = VOther k"


text \<open>
  \<^verbatim>\<open>Value.Elem\<close> of a pointer: the cell it points to, the zero Value for a nil
  pointer; of an interface: the value it holds.
\<close>

fun Elem :: "govalue \<Rightarrow> govalue" where
  "Elem (VPtr t (Some x)) = x"
| "Elem (VPtr t None) = VInvalid"
| "Elem (VInterface (Some x)) = x"
| "Elem (VInterface None) = VInvalid"
| "Elem v = VInvalid"

text \<open>\<^verbatim>\<open>reflect.New(t)\<close>: a pointer to a fresh cell that holds the zero value of \<open>t\<close>.\<close>

definition New :: "gotype \<Rightarrow> govalue" where
  "New t = VPtr t (Some (zero t))"

text \<open>
  \<^verbatim>\<open>v.Set(x)\<close>: the new contents of \<open>v\<close>, or \<open>None\<close> where \<^verbatim>\<open>reflect\<close> panics:
  \<open>x\<close> must be directly assignable to the type of \<open>v\<close> (in this universe of types:
  have the same type) or implement it (\<open>v\<close> is an empty interface).
\<close>

definition Value_Set :: "govalue \<Rightarrow> govalue \<Rightarrow> govalue option" where
  "Value_Set v x =
     (if \<not> IsValid v \<or> \<not> IsValid x then None
      else if Type x = Type v then Some x
      else if Kind v = KInterface then Some (VInterface (Some x))
      else None)"

section \<open>The platform: word size and the standard library\<close>

datatype Arch = Arch32 | Arch64

fun wordBits :: "Arch \<Rightarrow> nat" where
  "wordBits Arch32 = 32"
| "wordBits Arch64 = 64"

text \<open>
  What the library takes from its environment and the model leaves open: the size of
  \<^verbatim>\<open>int\<close>, \<^verbatim>\<open>uint\<close> and \<^verbatim>\<open>uintptr\<close>, \<^verbatim>\<open>strconv.ParseFloat(s, 64)\<close>,
  \<^verbatim>\<open>time.Parse(layout, value)\<close> and the conversion \<^verbatim>\<open>float32(x)\<close>.
\<close>

record Platform =
  arch :: Arch
  strconv_ParseFloat :: "string \<Rightarrow> float64 \<times> error option"
  time_Parse :: "string \<Rightarrow> string \<Rightarrow> Time \<times> error option"
  float32 :: "float64 \<Rightarrow> float64"

text \<open>\<^verbatim>\<open>Type.Size() * 8\<close> of the integer types.\<close>

fun intBits :: "Arch \<Rightarrow> IntKind \<Rightarrow> nat" where
  "intBits a I = wordBits a"
| "intBits a I8 = 8"
| "intBits a I16 = 16"
| "intBits a I32 = 32"
| "intBits a I64 = 64"

fun uintBits :: "Arch \<Rightarrow> UintKind \<Rightarrow> nat" where
  "uintBits a U = wordBits a"
| "uintBits a U8 = 8"
| "uintBits a U16 = 16"
| "uintBits a U32 = 32"
| "uintBits a U64 = 64"
| "uintBits a Uptr = wordBits a"

subsection \<open>strconv\<close>

definition isDigit :: "char \<Rightarrow> bool" where
  "isDigit c = (of_char (CHR ''0'') \<le> (of_char c :: nat) \<and> (of_char c :: nat) \<le> of_char (CHR ''9''))"

definition maxUint64 :: nat where
  "maxUint64 = 2 ^ 64 - 1"

text \<open>
  The loop of \<^verbatim>\<open>strconv.ParseUint(s, 10, 64)\<close>: every byte must be a decimal digit
  (base 10 takes no prefix and no underscore); \<open>n * 10\<close> overflows from the cutoff
  \<open>maxUint64 div 10 + 1\<close> on.
\<close>

fun parseUintLoop :: "nat \<Rightarrow> string \<Rightarrow> nat \<times> error option" where
  "parseUintLoop n [] = (n, None)"
| "parseUintLoop n (c # cs) =
     (if \<not> isDigit c then (0, Some ErrSyntax)
      else if n \<ge> maxUint64 div 10 + 1 then (maxUint64, Some ErrRange)
      else
        let n1 = n * 10 + (of_char c - of_char (CHR ''0'')) in
        if n1 > maxUint64 then (maxUint64, Some ErrRange)
        else parseUintLoop n1 cs)"

definition ParseUint :: "string \<Rightarrow> 64 word \<times> error option" where
  "ParseUint s =
     (if s = [] then (0, Some ErrSyntax)
      else case parseUintLoop 0 s of (n, e) \<Rightarrow> (of_nat n, e))"

text \<open>\<^verbatim>\<open>strconv.ParseInt(s, 10, 64)\<close>: an optional sign, then \<^verbatim>\<open>ParseUint\<close> and the range check.\<close>

definition ParseInt :: "string \<Rightarrow> 64 word \<times> error option" where
  "ParseInt s0 =
     (if s0 = [] then (0, Some ErrSyntax)
      else
        let neg = (hd s0 = CHR ''-'');
            s = (if hd s0 = CHR ''+'' \<or> hd s0 = CHR ''-'' then tl s0 else s0);
            (un, err) = ParseUint s;
            cutoff = (2 ^ 63 :: nat)
        in
        if err \<noteq> None \<and> err \<noteq> Some ErrRange then (0, err)
        else if \<not> neg \<and> unat un \<ge> cutoff then (of_nat (cutoff - 1), Some ErrRange)
        else if neg \<and> unat un > cutoff then (- of_nat cutoff, Some ErrRange)
        else (if neg then - un else un, None))"

text \<open>\<^verbatim>\<open>strconv.ParseBool\<close>.\<close>

definition ParseBool :: "string \<Rightarrow> bool \<times> error option" where
  "ParseBool str =
     (if str \<in> set [''1'', ''t'', ''T'', ''TRUE'', ''true'', ''True''] then (True, None)
      else if str \<in> set [''0'', ''f'', ''F'', ''FALSE'', ''false'', ''False''] then (False, None)
      else (False, Some ErrSyntax))"

subsection \<open>reflect: overflow checks and typed setters\<close>

text \<open>
  \<^verbatim>\<open>Value.OverflowInt\<close>: \<^verbatim>\<open>trunc := (x << (64 - bitSize)) >> (64 - bitSize)\<close> on an
  \<^verbatim>\<open>int64\<close> (the right shift is arithmetic), overflow when \<^verbatim>\<open>x != trunc\<close>. \<open>None\<close>
  is the panic on a Value that is not of an integer kind.
\<close>

definition OverflowInt :: "Platform \<Rightarrow> govalue \<Rightarrow> 64 word \<Rightarrow> bool option" where
  "OverflowInt lib v x =
     (case v of
        VInt k _ \<Rightarrow>
          let bitSize = intBits (arch lib) k;
              trunc = signed_drop_bit (64 - bitSize) (push_bit (64 - bitSize) x)
          in Some (x \<noteq> trunc)
      | _ \<Rightarrow> None)"

text \<open>\<^verbatim>\<open>Value.OverflowUint\<close>: the same on a \<^verbatim>\<open>uint64\<close>, with a logical right shift.\<close>

definition OverflowUint :: "Platform \<Rightarrow> govalue \<Rightarrow> 64 word \<Rightarrow> bool option" where
  "OverflowUint lib v x =
     (case v of
        VUint k _ \<Rightarrow>
          let bitSize = uintBits (arch lib) k;
              trunc = drop_bit (64 - bitSize) (push_bit (64 - bitSize) x)
          in Some (x \<noteq> trunc)
      | _ \<Rightarrow> None)"

definition MaxFloat32 :: rat where
  "MaxFloat32 = 2 ^ 128 - 2 ^ 104"

definition MaxFloat64 :: rat where
  "MaxFloat64 = 2 ^ 1024 - 2 ^ 971"

text \<open>Comparison and negation of \<^verbatim>\<open>float64\<close> values: every comparison with a NaN is false.\<close>

fun float_less :: "float64 \<Rightarrow> float64 \<Rightarrow> bool" where
  "float_less NaN y = False"
| "float_less x NaN = False"
| "float_less PosInf y = False"
| "float_less x NegInf = False"
| "float_less NegInf y = True"
| "float_less x PosInf = True"
| "float_less (Finite a) (Finite b) = (a < b)"

definition float_le :: "float64 \<Rightarrow> float64 \<Rightarrow> bool" where
  "float_le x y = (x \<noteq> NaN \<and> y \<noteq> NaN \<and> (float_less x y \<or> x = y))"

fun float_neg :: "float64 \<Rightarrow> float64" where
  "float_neg (Finite a) = Finite (- a)"
| "float_neg PosInf = NegInf"
| "float_neg NegInf = PosInf"
| "float_neg NaN = NaN"

text \<open>\<^verbatim>\<open>overflowFloat32\<close> of package \<^verbatim>\<open>reflect\<close>.\<close>

definition overflowFloat32 :: "float64 \<Rightarrow> bool" where
  "overflowFloat32 x0 =
     (let x = (if float_less x0 (Finite 0) then float_neg x0 else x0)
      in float_less (Finite MaxFloat32) x \<and> float_le x (Finite MaxFloat64))"

definition OverflowFloat :: "govalue \<Rightarrow> float64 \<Rightarrow> bool option" where
  "OverflowFloat v x =
     (case v of
        VFloat F32 _ \<Rightarrow> Some (overflowFloat32 x)
      | VFloat F64 _ \<Rightarrow> Some False
      | _ \<Rightarrow> None)"

text \<open>
  \<^verbatim>\<open>SetInt\<close>, \<^verbatim>\<open>SetUint\<close>, \<^verbatim>\<open>SetFloat\<close>, \<^verbatim>\<open>SetBool\<close>: the value converted to the
  destination's type (an integer truncated to its width); \<open>None\<close> is the panic on a
  Value of another kind.
\<close>

definition SetInt :: "Platform \<Rightarrow> govalue \<Rightarrow> 64 word \<Rightarrow> govalue option" where
  "SetInt lib v x =
     (case v of
        VInt k _ \<Rightarrow> Some (VInt k (sint (signed_take_bit (intBits (arch lib) k - 1) x)))
      | _ \<Rightarrow> None)"

definition SetUint :: "Platform \<Rightarrow> govalue \<Rightarrow> 64 word \<Rightarrow> govalue option" where
  "SetUint lib v x =
     (case v of
        VUint k _ \<Rightarrow> Some (VUint k (unat (take_bit (uintBits (arch lib) k) x)))
      | _ \<Rightarrow> None)"

definition SetFloat :: "Platform \<Rightarrow> govalue \<Rightarrow> float64 \<Rightarrow> govalue option" where
  "SetFloat lib v x =
     (case v of
        VFloat F32 _ \<Rightarrow> Some (VFloat F32 (float32 lib x))
      | VFloat F64 _ \<Rightarrow> Some (VFloat F64 x)
      | _ \<Rightarrow> None)"

definition SetBool :: "govalue \<Rightarrow> bool \<Rightarrow> govalue option" where
  "SetBool v x = (case v of VBool _ \<Rightarrow> Some (VBool x) | _ \<Rightarrow> None)"


section \<open>The parser and its collaborators\<close>

text \<open>
  An entry of the store (\<^verbatim>\<open>api.KVPair\<close>) and the lookup \<^verbatim>\<open>KV.Get(key, nil)\<close> of
  the Consul client, which returns a pointer to an entry (nil: \<open>None\<close>) and an error
  (nil: \<open>None\<close>); the query metadata is dropped, as the library drops it.
\<close>

record KVPair =
  Key :: string
  Value :: string

record Parser =
  consulKV :: "string \<Rightarrow> KVPair option \<times> error option"

text \<open>The package-level variables: the layout that \<^verbatim>\<open>time.Parse\<close> is given.\<close>

record Globals =
  timeLayout :: string

definition keyTag :: string where
  "keyTag = ''consulkv''"

definition timeType :: string where
  "timeType = ''time.Time''"

definition RFC3339 :: string where
  "RFC3339 = ''2006-01-02T15:04:05Z07:00''"

definition RFC3339Nano :: string where
  "RFC3339Nano = ''2006-01-02T15:04:05.999999999Z07:00''"

definition initGlobals :: Globals where
  "initGlobals = \<lparr> timeLayout = RFC3339 \<rparr>"

text \<open>
  Every function below returns its outcome, the new contents of the destination it was
  given (Go mutates it in place) and the keys it has asked the store for, in order.
\<close>

text \<open>
  \<^verbatim>\<open>getValue\<close>. With a nil error and a nil entry, \<^verbatim>\<open>pair.Value\<close> dereferences a nil
  pointer.
\<close>

definition getValue :: "Parser \<Rightarrow> string \<Rightarrow> outcome \<times> string \<times> string list" where
  "getValue parser consulKey =
     (if consulKey = [] then (Ok, [], [])
      else
        case consulKV parser consulKey of
          (pair, Some err) \<Rightarrow> (Err err, [], [consulKey])
        | (None, None) \<Rightarrow> (Panic NilPointerDereference, [], [consulKey])
        | (Some pair, None) \<Rightarrow> (Ok, Value pair, [consulKey]))"

text \<open>\<^verbatim>\<open>Value.CanSet\<close> of a field of a settable struct: the field is exported.\<close>

definition CanSet :: "StructField \<Rightarrow> bool" where
  "CanSet decl = Exported decl"

text \<open>The measure of the recursion: the nesting of pointer and struct types.\<close>

primrec tsz :: "gotype \<Rightarrow> nat" where
  "tsz TInvalid = 0"
| "tsz TBool = 0"
| "tsz (TInt k) = 0"
| "tsz (TUint k) = 0"
| "tsz (TFloat k) = 0"
| "tsz TString = 0"
| "tsz TInterface = 0"
| "tsz (TPtr t) = Suc (tsz t)"
| "tsz (TStruct n fs) = Suc (sum_list (map (\<lambda>f. Suc (snd f)) (map (map_prod id tsz) fs)))"
| "tsz TTime = 0"
| "tsz (TOther k) = 0"

definition vsz :: "govalue \<Rightarrow> nat" where
  "vsz v = tsz (Type v)"

definition fsz :: "(StructField \<times> govalue) list \<Rightarrow> nat" where
  "fsz fs = sum_list (map (\<lambda>f. Suc (vsz (snd f))) fs)"

lemma Type_zero: "Type (zero t) = t"
  by (induction t) (auto simp: list.map_comp prod.map_comp comp_def intro!: map_idI)

lemma vsz_zero: "vsz (zero t) = tsz t"
  by (simp add: vsz_def Type_zero)

lemma vsz_VPtr: "vsz (VPtr t p) = Suc (tsz t)"
  by (simp add: vsz_def)

lemma vsz_VStruct: "vsz (VStruct n fs) = Suc (fsz fs)"
  by (simp add: vsz_def fsz_def comp_def split_def)

lemma fsz_Cons: "fsz ((d, v) # fs) = Suc (vsz v) + fsz fs"
  by (simp add: fsz_def)


section \<open>The assignment engine\<close>

text \<open>
  \<^verbatim>\<open>tempVal.Elem().Set(x)\<close>: the pointer \<open>tempVal\<close> with its cell overwritten, \<open>None\<close>
  where \<^verbatim>\<open>Set\<close> panics.
\<close>

definition Elem_Set :: "govalue \<Rightarrow> govalue \<Rightarrow> govalue option" where
  "Elem_Set tempVal x =
     (case tempVal of
        VPtr t (Some cell) \<Rightarrow>
          (case Value_Set cell x of
             Some cell' \<Rightarrow> Some (VPtr t (Some cell'))
           | None \<Rightarrow> None)
      | _ \<Rightarrow> None)"

text \<open>The last statement of \<^verbatim>\<open>assignPointer\<close> and of some branches: \<^verbatim>\<open>val.Set(x); return\<close>.\<close>

definition Set_return :: "govalue \<Rightarrow> govalue \<Rightarrow> string list \<Rightarrow> outcome \<times> govalue \<times> string list" where
  "Set_return val x ks =
     (case Value_Set val x of
        Some val' \<Rightarrow> (Ok, val', ks)
      | None \<Rightarrow> (Panic NotAssignable, val, ks))"

text \<open>The same for the typed setters \<^verbatim>\<open>SetInt\<close>, \<^verbatim>\<open>SetUint\<close>, \<^verbatim>\<open>SetFloat\<close>, \<^verbatim>\<open>SetBool\<close>.\<close>

definition Setter_return :: "govalue \<Rightarrow> govalue option \<Rightarrow> outcome \<times> govalue \<times> string list" where
  "Setter_return val r =
     (case r of
        Some val' \<Rightarrow> (Ok, val', [])
      | None \<Rightarrow> (Panic WrongKind, val, []))"

lemma Elem_New: "Elem (New t) = zero t"
  by (simp add: New_def)

subsection \<open>The branches of assignPointer that do not recurse\<close>

text \<open>
  Each definition is one \<^verbatim>\<open>case\<close> of the \<^verbatim>\<open>switch\<close> of \<^verbatim>\<open>assignPointer\<close>, followed
  by the \<^verbatim>\<open>val.Set(tempVal)\<close> that ends the function; \<open>t\<close> is \<^verbatim>\<open>val.Type().Elem()\<close>.
\<close>

definition assignPointer_Time :: "Platform \<Rightarrow> Globals \<Rightarrow> govalue \<Rightarrow> string
                                    \<Rightarrow> outcome \<times> govalue \<times> string list" where
  "assignPointer_Time lib g val value =
     (if value = [] then (Ok, val, [])
      else
        case time_Parse lib (timeLayout g) value of
          (timeVal, Some err) \<Rightarrow> (Err err, val, [])
        | (timeVal, None) \<Rightarrow> Set_return val (VPtr TTime (Some (VTime timeVal))) [])"

definition assignPointer_String :: "gotype \<Rightarrow> govalue \<Rightarrow> string
                                      \<Rightarrow> outcome \<times> govalue \<times> string list" where
  "assignPointer_String t val value =
     (if value = [] then (Ok, val, [])
      else
        let tempVal = New t in
        case Elem_Set tempVal (VString value) of
          None \<Rightarrow> (Panic NotAssignable, val, [])
        | Some tempVal' \<Rightarrow> Set_return val tempVal' [])"

definition assignPointer_Int :: "Platform \<Rightarrow> gotype \<Rightarrow> govalue \<Rightarrow> string
                                   \<Rightarrow> outcome \<times> govalue \<times> string list" where
  "assignPointer_Int lib t val value =
     (if value = [] then (Ok, val, [])
      else
        case ParseInt value of
          (temp, Some err) \<Rightarrow> (Err err, val, [])
        | (temp, None) \<Rightarrow>
            let tempVal = New t in
            (case OverflowInt lib (Elem tempVal) temp of
               None \<Rightarrow> (Panic WrongKind, val, [])
             | Some True \<Rightarrow> (Err ErrOverflowSet, val, [])
             | Some False \<Rightarrow>
                 (case Elem_Set tempVal (VInt I64 (sint temp)) of
                    None \<Rightarrow> (Panic NotAssignable, val, [])
                  | Some tempVal' \<Rightarrow> Set_return val tempVal' [])))"

definition assignPointer_Uint :: "Platform \<Rightarrow> gotype \<Rightarrow> govalue \<Rightarrow> string
                                    \<Rightarrow> outcome \<times> govalue \<times> string list" where
  "assignPointer_Uint lib t val value =
     (if value = [] then (Ok, val, [])
      else
        case ParseUint value of
          (temp, Some err) \<Rightarrow> (Err err, val, [])
        | (temp, None) \<Rightarrow>
            let tempVal = New t in
            (case OverflowUint lib (Elem tempVal) temp of
               None \<Rightarrow> (Panic WrongKind, val, [])
             | Some True \<Rightarrow> (Err ErrOverflowSet, val, [])
             | Some False \<Rightarrow>
                 (case Elem_Set tempVal (VUint U64 (unat temp)) of
                    None \<Rightarrow> (Panic NotAssignable, val, [])
                  | Some tempVal' \<Rightarrow> Set_return val tempVal' [])))"

definition assignPointer_Float :: "Platform \<Rightarrow> gotype \<Rightarrow> govalue \<Rightarrow> string
                                     \<Rightarrow> outcome \<times> govalue \<times> string list" where
  "assignPointer_Float lib t val value =
     (if value = [] then (Ok, val, [])
      else
        case strconv_ParseFloat lib value of
          (temp, Some err) \<Rightarrow> (Err err, val, [])
        | (temp, None) \<Rightarrow>
            let tempVal = New t in
            (case OverflowFloat (Elem tempVal) temp of
               None \<Rightarrow> (Panic WrongKind, val, [])
             | Some True \<Rightarrow> (Err ErrOverflowSet, val, [])
             | Some False \<Rightarrow>
                 (case Elem_Set tempVal (VFloat F64 temp) of
                    None \<Rightarrow> (Panic NotAssignable, val, [])
                  | Some tempVal' \<Rightarrow> Set_return val tempVal' [])))"

definition assignPointer_Bool :: "gotype \<Rightarrow> govalue \<Rightarrow> string
                                    \<Rightarrow> outcome \<times> govalue \<times> string list" where
  "assignPointer_Bool t val value =
     (if value = [] then (Ok, val, [])
      else
        case ParseBool value of
          (temp, Some err) \<Rightarrow> (Err err, val, [])
        | (temp, None) \<Rightarrow>
            let tempVal = New t in
            (case Elem_Set tempVal (VBool temp) of
               None \<Rightarrow> (Panic NotAssignable, val, [])
             | Some tempVal' \<Rightarrow> Set_return val tempVal' []))"

subsection \<open>The branches of assignNonPointer that do not recurse\<close>

definition assignNonPointer_Time :: "Platform \<Rightarrow> Globals \<Rightarrow> govalue \<Rightarrow> string
                                       \<Rightarrow> outcome \<times> govalue \<times> string list" where
  "assignNonPointer_Time lib g val value =
     (if value = [] then (Ok, val, [])
      else
        case time_Parse lib (timeLayout g) value of
          (timeVal, Some err) \<Rightarrow> (Err err, val, [])
        | (timeVal, None) \<Rightarrow> Set_return val (VTime timeVal) [])"

definition assignNonPointer_String :: "govalue \<Rightarrow> string \<Rightarrow> outcome \<times> govalue \<times> string list" where
  "assignNonPointer_String val value =
     (if value = [] then (Ok, val, [])
      else Set_return val (VString value) [])"

definition assignNonPointer_Int :: "Platform \<Rightarrow> govalue \<Rightarrow> string
                                      \<Rightarrow> outcome \<times> govalue \<times> string list" where
  "assignNonPointer_Int lib val value =
     (if value = [] then (Ok, val, [])
      else
        case ParseInt value of
          (temp, Some err) \<Rightarrow> (Err err, val, [])
        | (temp, None) \<Rightarrow>
            (case OverflowInt lib val temp of
               None \<Rightarrow> (Panic WrongKind, val, [])
             | Some True \<Rightarrow> (Err ErrOverflowSet, val, [])
             | Some False \<Rightarrow> Setter_return val (SetInt lib val temp)))"

definition assignNonPointer_Uint :: "Platform \<Rightarrow> govalue \<Rightarrow> string
                                       \<Rightarrow> outcome \<times> govalue \<times> string list" where
  "assignNonPointer_Uint lib val value =
     (if value = [] then (Ok, val, [])
      else
        case ParseUint value of
          (temp, Some err) \<Rightarrow> (Err err, val, [])
        | (temp, None) \<Rightarrow>
            (case OverflowUint lib val temp of
               None \<Rightarrow> (Panic WrongKind, val, [])
             | Some True \<Rightarrow> (Err ErrOverflowSet, val, [])
             | Some False \<Rightarrow> Setter_return val (SetUint lib val temp)))"

definition assignNonPointer_Float :: "Platform \<Rightarrow> govalue \<Rightarrow> string
                                        \<Rightarrow> outcome \<times> govalue \<times> string list" where
  "assignNonPointer_Float lib val value =
     (if value = [] then (Ok, val, [])
      else
        case strconv_ParseFloat lib value of
          (temp, Some err) \<Rightarrow> (Err err, val, [])
        | (temp, None) \<Rightarrow>
            (case OverflowFloat val temp of
               None \<Rightarrow> (Panic WrongKind, val, [])
             | Some True \<Rightarrow> (Err ErrOverflowSet, val, [])
             | Some False \<Rightarrow> Setter_return val (SetFloat lib val temp)))"

definition assignNonPointer_Bool :: "govalue \<Rightarrow> string \<Rightarrow> outcome \<times> govalue \<times> string list" where
  "assignNonPointer_Bool val value =
     (if value = [] then (Ok, val, [])
      else
        case ParseBool value of
          (temp, Some err) \<Rightarrow> (Err err, val, [])
        | (temp, None) \<Rightarrow> Setter_return val (SetBool val temp))"

subsection \<open>parse, assign, assignPointer, assignNonPointer\<close>

text \<open>
  \<open>parseFields\<close> is the loop of \<^verbatim>\<open>parse\<close> over the fields, in declaration order. A
  \<^verbatim>\<open>time.Time\<close> has unexported fields only, so that loop would skip each of them;
  \<^verbatim>\<open>NumField\<close> panics on a Value that is not a struct, \<^verbatim>\<open>Type().Elem()\<close> on one
  that is not a pointer.
\<close>

function
    parseFields :: "Platform \<Rightarrow> Parser \<Rightarrow> Globals \<Rightarrow> (StructField \<times> govalue) list
                      \<Rightarrow> outcome \<times> (StructField \<times> govalue) list \<times> string list"
and parse :: "Platform \<Rightarrow> Parser \<Rightarrow> Globals \<Rightarrow> govalue \<Rightarrow> outcome \<times> govalue \<times> string list"
and assign :: "Platform \<Rightarrow> Parser \<Rightarrow> Globals \<Rightarrow> govalue \<Rightarrow> string
                 \<Rightarrow> outcome \<times> govalue \<times> string list"
and assignPointer :: "Platform \<Rightarrow> Parser \<Rightarrow> Globals \<Rightarrow> govalue \<Rightarrow> string
                        \<Rightarrow> outcome \<times> govalue \<times> string list"
and assignNonPointer :: "Platform \<Rightarrow> Parser \<Rightarrow> Globals \<Rightarrow> govalue \<Rightarrow> string
                           \<Rightarrow> outcome \<times> govalue \<times> string list"
where
  "parseFields lib parser g [] = (Ok, [], [])"
| "parseFields lib parser g ((decl, field) # fs) =
     (if \<not> CanSet decl \<or> \<not> IsValid field then
        (case parseFields lib parser g fs of
           (err, fs', ks) \<Rightarrow> (err, (decl, field) # fs', ks))
      else
        let consulKey = Tag_Get (Tag decl) keyTag in
        case getValue parser consulKey of
          (Ok, value, ks1) \<Rightarrow>
            (case assign lib parser g field value of
               (Ok, field', ks2) \<Rightarrow>
                 (case parseFields lib parser g fs of
                    (err, fs', ks3) \<Rightarrow> (err, (decl, field') # fs', ks1 @ ks2 @ ks3))
             | (err, field', ks2) \<Rightarrow> (err, (decl, field') # fs, ks1 @ ks2))
        | (err, value, ks1) \<Rightarrow> (err, (decl, field) # fs, ks1))"

| "parse lib parser g v =
     (case v of
        VStruct n fs \<Rightarrow>
          (case parseFields lib parser g fs of
             (err, fs', ks) \<Rightarrow> (err, VStruct n fs', ks))
      | VTime x \<Rightarrow> (Ok, v, [])
      | _ \<Rightarrow> (Panic WrongKind, v, []))"

| "assign lib parser g val value =
     (if Kind val = KPtr then assignPointer lib parser g val value
      else assignNonPointer lib parser g val value)"

| "assignPointer lib parser g val value =
     (case val of
        VPtr t old \<Rightarrow>
          (let k = KindT t in
           if k = KPtr then
             (let tempVal = New t in
              case assignPointer lib parser g (Elem tempVal) value of
                (Ok, cell, ks) \<Rightarrow> Set_return val (VPtr t (Some cell)) ks
              | (err, cell, ks) \<Rightarrow> (err, val, ks))
           else if k = KStruct then
             (if String t = timeType then assignPointer_Time lib g val value
              else
                (let tempVal = New t in
                 case parse lib parser g (Elem tempVal) of
                   (Ok, cell, ks) \<Rightarrow> Set_return val (VPtr t (Some cell)) ks
                 | (err, cell, ks) \<Rightarrow> (err, val, ks)))
           else if k \<in> {KInterface, KString} then assignPointer_String t val value
           else if k \<in> {KInt, KInt8, KInt16, KInt32, KInt64} then
             assignPointer_Int lib t val value
           else if k \<in> {KUint, KUint8, KUint16, KUint32, KUint64, KUintptr} then
             assignPointer_Uint lib t val value
           else if k \<in> {KFloat32, KFloat64} then assignPointer_Float lib t val value
           else if k = KBool then assignPointer_Bool t val value
           else (Err ErrUnhandledKind, val, []))
      | _ \<Rightarrow> (Panic WrongKind, val, []))"

| "assignNonPointer lib parser g val value =
     (let k = Kind val in
      if k = KStruct then
        (if String (Type val) = timeType then assignNonPointer_Time lib g val value
         else parse lib parser g val)
      else if k \<in> {KInterface, KString} then assignNonPointer_String val value
      else if k \<in> {KInt, KInt8, KInt16, KInt32, KInt64} then
        assignNonPointer_Int lib val value
      else if k \<in> {KUint, KUint8, KUint16, KUint32, KUint64, KUintptr} then
        assignNonPointer_Uint lib val value
      else if k \<in> {KFloat32, KFloat64} then assignNonPointer_Float lib val value
      else if k = KBool then assignNonPointer_Bool val value
      else (Err ErrUnhandledKind, val, []))"
  by pat_completeness auto

termination
proof (relation "measure (\<lambda>x. case x of
          Inl (Inl (lib, parser, g, fs)) \<Rightarrow> 2 * fsz fs + 1
        | Inl (Inr (lib, parser, g, v)) \<Rightarrow> 2 * vsz v
        | Inr (Inl (lib, parser, g, val, value)) \<Rightarrow> 2 * vsz val + 2
        | Inr (Inr (Inl (lib, parser, g, val, value))) \<Rightarrow> 2 * vsz val + 1
        | Inr (Inr (Inr (lib, parser, g, val, value))) \<Rightarrow> 2 * vsz val + 1)", goal_cases)
  case 1
  show ?case by simp
qed (simp_all add: Elem_New vsz_zero vsz_VPtr vsz_VStruct fsz_Cons)

section \<open>The entry points\<close>

text \<open>
  \<^verbatim>\<open>getRecursivePointerVal\<close>: \<^verbatim>\<open>Elem\<close> as long as the kind is \<^verbatim>\<open>Ptr\<close>; \<^verbatim>\<open>Elem\<close> of a
  nil pointer is the zero Value, whose kind is \<^verbatim>\<open>Invalid\<close>.
\<close>

fun getRecursivePointerVal :: "govalue \<Rightarrow> govalue" where
  "getRecursivePointerVal (VPtr t (Some x)) = getRecursivePointerVal x"
| "getRecursivePointerVal (VPtr t None) = VInvalid"
| "getRecursivePointerVal val = val"

text \<open>
  The Value that \<^verbatim>\<open>getRecursivePointerVal\<close> returns refers to storage inside the
  target: what \<^verbatim>\<open>assign\<close> writes to it is written there. \<open>putRecursivePointerVal\<close>
  is the target with that storage replaced (the zero Value refers to no storage).
\<close>

fun putRecursivePointerVal :: "govalue \<Rightarrow> govalue \<Rightarrow> govalue" where
  "putRecursivePointerVal (VPtr t (Some x)) new = VPtr t (Some (putRecursivePointerVal x new))"
| "putRecursivePointerVal (VPtr t None) new = VPtr t None"
| "putRecursivePointerVal val new = new"

text \<open>
  \<^verbatim>\<open>Parse\<close>. The target is what \<^verbatim>\<open>reflect.ValueOf(target)\<close> gives: \<open>VInvalid\<close> for a
  nil interface.
\<close>

definition Parse :: "Platform \<Rightarrow> Parser \<Rightarrow> Globals \<Rightarrow> govalue \<Rightarrow> outcome \<times> govalue \<times> string list" where
  "Parse lib parser g target =
     (let valueStruct = target in
      if Kind valueStruct \<noteq> KPtr \<or> \<not> IsValid valueStruct then (Err ErrNonPointerType, target, [])
      else
        case assign lib parser g (getRecursivePointerVal valueStruct) [] of
          (err, elem, ks) \<Rightarrow> (err, putRecursivePointerVal target elem, ks))"

text \<open>\<^verbatim>\<open>SetTimeLayout\<close>: the error it returns (\<open>None\<close> for nil) and the package variables after it.\<close>

definition SetTimeLayout :: "Parser \<Rightarrow> string \<Rightarrow> Globals \<Rightarrow> error option \<times> Globals" where
  "SetTimeLayout parser layout g =
     (if layout = [] then (Some ErrEmptyLayout, g)
      else (None, g\<lparr>timeLayout := layout\<rparr>))"

section \<open>The environment of the tests\<close>

text \<open>
  The store that \<^verbatim>\<open>parser_test.go\<close> registers with \<^verbatim>\<open>httpmock\<close>: a key that has a
  responder yields its entry, any other key a transport error.
\<close>

definition testStore :: "(string \<times> string) list" where
  "testStore =
     [(''string'', ''hello''), (''integer'', ''-10''), (''float'', ''10.0''),
      (''unsignedinteger'', ''1000''), (''boolean'', ''true''),
      (''time'', ''2019-02-01T00:00:00Z''), (''overflowint'', ''128''),
      (''overflowuint'', ''256''), (''overflowfloat'', ''2E+308'')]"

definition testParser :: Parser where
  "testParser =
     \<lparr> consulKV = (\<lambda>k. case map_of testStore k of
                          Some v \<Rightarrow> (Some \<lparr> Key = k, Value = v \<rparr>, None)
                        | None \<Rightarrow> (None, Some (ExternalError ''no responder found''))) \<rparr>"

text \<open>
  A 64-bit platform whose \<^verbatim>\<open>ParseFloat\<close> and \<^verbatim>\<open>time.Parse\<close> know the texts of the
  tests (and \<^verbatim>\<open>1e39\<close>, which is finite but beyond \<^verbatim>\<open>float32\<close>), and reject any other.
\<close>

definition testPlatform :: Platform where
  "testPlatform =
     \<lparr> arch = Arch64,
       strconv_ParseFloat = (\<lambda>s.
         if s = ''10.0'' then (Finite 10, None)
         else if s = ''1e39'' then (Finite (10 ^ 39), None)
         else if s = ''2E+308'' then (PosInf, Some ErrRange)
         else (Finite 0, Some ErrSyntax)),
       time_Parse = (\<lambda>layout v.
         if layout = RFC3339 \<and> v = ''2019-02-01T00:00:00Z''
         then (Instant 1548979200000000000, None)
         else (ZeroTime, Some (ExternalError ''parsing time''))),
       float32 = (\<lambda>x. x) \<rparr>"

text \<open>A store whose every key is absent: \<^verbatim>\<open>KV.Get\<close> returns a nil entry and a nil error.\<close>

definition emptyStoreParser :: Parser where
  "emptyStoreParser = \<lparr> consulKV = (\<lambda>k. (None, None)) \<rparr>"

text \<open>Field declarations as the tests write them: a name and the key of the \<^verbatim>\<open>consulkv\<close> tag.\<close>

definition exportedField :: "string \<Rightarrow> string \<Rightarrow> StructField" where
  "exportedField name key = \<lparr> Name = name, Exported = True, Tag = [(''consulkv'', key)] \<rparr>"

definition unexportedField :: "string \<Rightarrow> string \<Rightarrow> StructField" where
  "unexportedField name key = \<lparr> Name = name, Exported = False, Tag = [(''consulkv'', key)] \<rparr>"

section \<open>Predicates used to state the properties\<close>

text \<open>
  The types whose branch of \<^verbatim>\<open>assignPointer\<close> and \<^verbatim>\<open>assignNonPointer\<close> starts with
  the guard \<^verbatim>\<open>if value == "" { return }\<close>: every handled kind but pointer and ordinary
  struct.
\<close>

fun emptyGuarded :: "gotype \<Rightarrow> bool" where
  "emptyGuarded TBool = True"
| "emptyGuarded (TInt k) = True"
| "emptyGuarded (TUint k) = True"
| "emptyGuarded (TFloat k) = True"
| "emptyGuarded TString = True"
| "emptyGuarded TInterface = True"
| "emptyGuarded TTime = True"
| "emptyGuarded (TStruct n fs) = (n = timeType)"
| "emptyGuarded t = False"

text \<open>The types of the kinds that fall to the \<^verbatim>\<open>default\<close> branch.\<close>

fun unhandled :: "gotype \<Rightarrow> bool" where
  "unhandled TInvalid = True"
| "unhandled (TOther k) = True"
| "unhandled t = False"


text \<open>
  A text that parses but does not fit a numeric type: an integer outside the range of
  the type's width, a finite \<^verbatim>\<open>float64\<close> beyond the largest \<^verbatim>\<open>float32\<close>.
\<close>

fun exceeds :: "Platform \<Rightarrow> gotype \<Rightarrow> string \<Rightarrow> bool" where
  "exceeds lib (TInt k) value =
     (case ParseInt value of
        (n, None) \<Rightarrow> sint n < - (2 ^ (intBits (arch lib) k - 1)) \<or> 2 ^ (intBits (arch lib) k - 1) \<le> sint n
      | (n, Some err) \<Rightarrow> False)"
| "exceeds lib (TUint k) value =
     (case ParseUint value of
        (n, None) \<Rightarrow> 2 ^ uintBits (arch lib) k \<le> unat n
      | (n, Some err) \<Rightarrow> False)"
| "exceeds lib (TFloat F32) value =
     (value \<noteq> [] \<and>
      (case strconv_ParseFloat lib value of
         (Finite x, None) \<Rightarrow> MaxFloat32 < \<bar>x\<bar> \<and> \<bar>x\<bar> \<le> MaxFloat64
       | _ \<Rightarrow> False))"
| "exceeds lib t value = False"

text \<open>The boolean, numeric, string and interface types.\<close>

fun primitive :: "gotype \<Rightarrow> bool" where
  "primitive TBool = True"
| "primitive (TInt k) = True"
| "primitive (TUint k) = True"
| "primitive (TFloat k) = True"
| "primitive TString = True"
| "primitive TInterface = True"
| "primitive t = False"

text \<open>A chain of \<open>n\<close> non-nil pointers that ends in \<open>leaf\<close>.\<close>

fun wrapPtr :: "nat \<Rightarrow> govalue \<Rightarrow> govalue" where
  "wrapPtr 0 leaf = leaf"
| "wrapPtr (Suc n) leaf = VPtr (Type (wrapPtr n leaf)) (Some (wrapPtr n leaf))"

section \<open>Auxiliary facts\<close>

subsection \<open>The overflow checks of reflect, as ranges\<close>

lemma sdrop_push: "n < 64 \<Longrightarrow> signed_drop_bit n (push_bit n (x :: 64 word)) = signed_take_bit (63 - n) x"
  apply (rule bit_word_eqI)
  apply (simp add: bit_signed_drop_bit_iff bit_push_bit_iff bit_signed_take_bit_iff min_def not_le not_less)
  using le_add_diff_inverse2 apply fastforce
  done

lemma sint_stb: "m < 64 \<Longrightarrow> sint (signed_take_bit m (x :: 64 word)) = signed_take_bit m (sint x)"
proof -
  assume m: "m < 64"
  have "signed_take_bit m x = (word_of_int (signed_take_bit m (sint x)) :: 64 word)"
    by (simp add: of_int_signed_take_bit)
  then have "sint (signed_take_bit m x) = signed_take_bit 63 (signed_take_bit m (sint x))"
    by (simp only: sint_sbintrunc') simp
  also have "\<dots> = signed_take_bit m (sint x)"
    using m by (cases "m = 63") (simp_all add: min_def)
  finally show ?thesis .
qed

lemma stb_self: 
  "m < 64 \<Longrightarrow> (signed_take_bit m (x :: 64 word) = x) = (- (2 ^ m) \<le> sint x \<and> sint x < 2 ^ m)"
proof -
  assume m: "m < 64"
  have "(signed_take_bit m x = x) = (sint (signed_take_bit m x) = sint x)"
    by (auto intro: signed_word_eqI)
  also have "\<dots> = (signed_take_bit m (sint x) = sint x)"
    using m by (simp add: sint_stb)
  also have "\<dots> = (- (2 ^ m) \<le> sint x \<and> sint x < 2 ^ m)"
    by (rule signed_take_bit_int_eq_self_iff)
  finally show ?thesis .
qed

lemma drop_push: "drop_bit n (push_bit n (x :: 64 word)) = take_bit (64 - n) x"
  apply (rule bit_word_eqI)
  apply (auto simp add: bit_drop_bit_eq bit_push_bit_iff bit_take_bit_iff)
  done

lemma tb_self: "(take_bit m (x :: 64 word) = x) = (unat x < 2 ^ m)"
  by (metis take_bit_nat_eq_self_iff unsigned_take_bit_eq word_eq_iff_unsigned)

lemma intBits_cases: "intBits a k \<in> {8, 16, 32, 64}"
  by (cases k; cases a) simp_all

lemma OverflowInt_iff:
  "OverflowInt lib (VInt k n0) x =
     Some (\<not> (- (2 ^ (intBits (arch lib) k - 1)) \<le> sint x \<and> sint x < 2 ^ (intBits (arch lib) k - 1)))"
proof -
  let ?b = "intBits (arch lib) k"
  have b: "?b \<in> {8, 16, 32, 64}" by (rule intBits_cases)
  then have "64 - ?b < 64" "63 - (64 - ?b) = ?b - 1" "?b - 1 < 64" by auto
  then have "(x \<noteq> signed_drop_bit (64 - ?b) (push_bit (64 - ?b) x)) =
        (\<not> (- (2 ^ (?b - 1)) \<le> sint x \<and> sint x < 2 ^ (?b - 1)))"
    using sdrop_push [of "64 - ?b" x] stb_self [of "?b - 1" x] by (simp add: eq_commute)
  then show ?thesis by (simp add: OverflowInt_def Let_def)
qed

lemma uintBits_le: "uintBits a k \<le> 64"
  by (cases k; cases a) simp_all

lemma OverflowUint_iff:
  "OverflowUint lib (VUint k n0) x = Some (2 ^ uintBits (arch lib) k \<le> unat x)"
proof -
  let ?b = "uintBits (arch lib) k"
  have "64 - (64 - ?b) = ?b" using uintBits_le [of "arch lib" k] by simp
  then have "(x \<noteq> drop_bit (64 - ?b) (push_bit (64 - ?b) x)) = (2 ^ ?b \<le> unat x)"
    using tb_self [of ?b x] by (auto simp add: drop_push eq_commute not_less)
  then show ?thesis by (simp add: OverflowUint_def Let_def)
qed


declare parseFields.simps [simp del] parse.simps [simp del] assign.simps [simp del]
  assignPointer.simps [simp del] assignNonPointer.simps [simp del]

lemmas branch_defs =
  assignPointer_Time_def assignPointer_String_def assignPointer_Int_def
  assignPointer_Uint_def assignPointer_Float_def assignPointer_Bool_def
  assignNonPointer_Time_def assignNonPointer_String_def assignNonPointer_Int_def
  assignNonPointer_Uint_def assignNonPointer_Float_def assignNonPointer_Bool_def


lemma assignNonPointer_VInt:
  "assignNonPointer lib parser g (VInt k n) value = assignNonPointer_Int lib (VInt k n) value"
  by (cases k) (simp_all add: assignNonPointer.simps Kind_def)

lemma assignNonPointer_VUint:
  "assignNonPointer lib parser g (VUint k n) value = assignNonPointer_Uint lib (VUint k n) value"
  by (cases k) (simp_all add: assignNonPointer.simps Kind_def)

lemma assignNonPointer_VFloat:
  "assignNonPointer lib parser g (VFloat k x) value = assignNonPointer_Float lib (VFloat k x) value"
  by (cases k) (simp_all add: assignNonPointer.simps Kind_def)

lemma assignNonPointer_VOther:
  "assignNonPointer lib parser g (VOther k) value = (Err ErrUnhandledKind, VOther k, [])"
  by (cases k) (simp_all add: assignNonPointer.simps Kind_def)

lemma assignNonPointer_simple:
  "assignNonPointer lib parser g VInvalid value = (Err ErrUnhandledKind, VInvalid, [])"
  "assignNonPointer lib parser g (VBool b) value = assignNonPointer_Bool (VBool b) value"
  "assignNonPointer lib parser g (VString s) value = assignNonPointer_String (VString s) value"
  "assignNonPointer lib parser g (VInterface d) value = assignNonPointer_String (VInterface d) value"
  "assignNonPointer lib parser g (VPtr t p) value = (Err ErrUnhandledKind, VPtr t p, [])"
  "assignNonPointer lib parser g (VTime x) value = assignNonPointer_Time lib g (VTime x) value"
  "assignNonPointer lib parser g (VStruct n fs) value =
     (if n = timeType then assignNonPointer_Time lib g (VStruct n fs) value
      else parse lib parser g (VStruct n fs))"
  by (simp_all add: assignNonPointer.simps Kind_def timeType_def)

lemma assignPointer_TInt:
  "assignPointer lib parser g (VPtr (TInt k) p) value = assignPointer_Int lib (TInt k) (VPtr (TInt k) p) value"
  by (cases k) (simp_all add: assignPointer.simps)

lemma assignPointer_TUint:
  "assignPointer lib parser g (VPtr (TUint k) p) value = assignPointer_Uint lib (TUint k) (VPtr (TUint k) p) value"
  by (cases k) (simp_all add: assignPointer.simps)

lemma assignPointer_TFloat:
  "assignPointer lib parser g (VPtr (TFloat k) p) value = assignPointer_Float lib (TFloat k) (VPtr (TFloat k) p) value"
  by (cases k) (simp_all add: assignPointer.simps)

lemma assignPointer_TOther:
  "assignPointer lib parser g (VPtr (TOther k) p) value = (Err ErrUnhandledKind, VPtr (TOther k) p, [])"
  by (cases k) (simp_all add: assignPointer.simps)

lemma assignPointer_simple:
  "assignPointer lib parser g (VPtr TInvalid p) value = (Err ErrUnhandledKind, VPtr TInvalid p, [])"
  "assignPointer lib parser g (VPtr TBool p) value = assignPointer_Bool TBool (VPtr TBool p) value"
  "assignPointer lib parser g (VPtr TString p) value = assignPointer_String TString (VPtr TString p) value"
  "assignPointer lib parser g (VPtr TInterface p) value = assignPointer_String TInterface (VPtr TInterface p) value"
  "assignPointer lib parser g (VPtr TTime p) value = assignPointer_Time lib g (VPtr TTime p) value"
  "assignPointer lib parser g (VPtr (TStruct n fs) p) value =
     (if n = timeType then assignPointer_Time lib g (VPtr (TStruct n fs) p) value
      else case parse lib parser g (zero (TStruct n fs)) of
             (Ok, cell, ks) \<Rightarrow> Set_return (VPtr (TStruct n fs) p) (VPtr (TStruct n fs) (Some cell)) ks
           | (err, cell, ks) \<Rightarrow> (err, VPtr (TStruct n fs) p, ks))"
  by (simp_all add: assignPointer.simps timeType_def Elem_New)

lemma assignPointer_TPtr:
  "assignPointer lib parser g (VPtr (TPtr t) p) value =
     (case assignPointer lib parser g (VPtr t None) value of
        (Ok, cell, ks) \<Rightarrow> Set_return (VPtr (TPtr t) p) (VPtr (TPtr t) (Some cell)) ks
      | (err, cell, ks) \<Rightarrow> (err, VPtr (TPtr t) p, ks))"
  by (subst assignPointer.simps) (simp add: Elem_New)

lemmas assign_dispatch =
  assignNonPointer_VInt assignNonPointer_VUint assignNonPointer_VFloat assignNonPointer_VOther
  assignNonPointer_simple
  assignPointer_TInt assignPointer_TUint assignPointer_TFloat assignPointer_TOther
  assignPointer_simple assignPointer_TPtr

lemma assign_VPtr: "assign lib parser g (VPtr t p) value = assignPointer lib parser g (VPtr t p) value"
  by (simp add: assign.simps Kind_def)


lemma KindT_KPtr_iff: "(KindT t = KPtr) = (\<exists>t'. t = TPtr t')"
  by (cases t rule: KindT.cases) simp_all

lemma Kind_KPtr_iff: "(Kind val = KPtr) = (\<exists>t p. val = VPtr t p)"
  by (cases val) (simp_all add: Kind_def KindT_KPtr_iff)

lemma assign_not_VPtr:
  "Kind val \<noteq> KPtr \<Longrightarrow> assign lib parser g val value = assignNonPointer lib parser g val value"
  by (simp add: assign.simps)

lemma assignNonPointer_empty:
  "emptyGuarded (Type val) \<Longrightarrow> assignNonPointer lib parser g val [] = (Ok, val, [])"
  by (cases val) (simp_all add: assign_dispatch branch_defs)

lemma assignPointer_empty:
  "emptyGuarded t \<Longrightarrow> assignPointer lib parser g (VPtr t p) [] = (Ok, VPtr t p, [])"
  by (cases t) (simp_all add: assign_dispatch branch_defs)

lemma assignNonPointer_unhandled:
  "unhandled (Type val) \<Longrightarrow> assignNonPointer lib parser g val value = (Err ErrUnhandledKind, val, [])"
  by (cases val) (simp_all add: assign_dispatch)

lemma assignPointer_unhandled:
  "unhandled t \<Longrightarrow> assignPointer lib parser g (VPtr t p) value = (Err ErrUnhandledKind, VPtr t p, [])"
  by (cases t) (simp_all add: assign_dispatch)

subsection \<open>Evaluation in the environment of the tests\<close>

lemmas test_defs = testPlatform_def testParser_def testStore_def initGlobals_def RFC3339_def


section \<open>Empty values\<close>

text \<open>
  Claim C1, as stated, fails: an empty value given to a pointer of depth two allocates
  the outer cell (the field becomes a non-nil pointer to a nil pointer), and a
  destination of an unhandled kind gets the unhandled-kind error whatever the value is.
\<close>

theorem assign_empty_counterexample:
  "assign testPlatform testParser initGlobals (VPtr (TPtr (TInt I64)) None) []
     = (Ok, VPtr (TPtr (TInt I64)) (Some (VPtr (TInt I64) None)), [])
   \<and> assign testPlatform testParser initGlobals (VOther Map) []
     = (Err ErrUnhandledKind, VOther Map, [])"
  by (simp add: assign_VPtr assign_not_VPtr Kind_def assign_dispatch branch_defs Set_return_def Value_Set_def IsValid_def)


text \<open>
  Claim C1, amended: a destination whose type has the emptiness guard (the temporal
  type, interface, string, signed and unsigned integers, floats, booleans), direct or
  behind one pointer, is left untouched by an empty value (a pointer keeps what it held,
  nil stays nil), with no error and no lookup; a destination of an unhandled kind, direct
  or behind one pointer, is left untouched too, with the unhandled-kind error.
\<close>

theorem assign_empty_untouched:
  "(emptyGuarded (Type val) \<longrightarrow> assign lib parser g val [] = (Ok, val, []))
   \<and> (emptyGuarded t \<longrightarrow> assign lib parser g (VPtr t p) [] = (Ok, VPtr t p, []))
   \<and> (unhandled (Type val) \<longrightarrow> assign lib parser g val value = (Err ErrUnhandledKind, val, []))
   \<and> (unhandled t \<longrightarrow> assign lib parser g (VPtr t p) value = (Err ErrUnhandledKind, VPtr t p, []))"
proof -
  have "assign lib parser g val [] = (Ok, val, [])" if "emptyGuarded (Type val)"
  proof -
    have "Kind val \<noteq> KPtr" using that by (auto simp: Kind_KPtr_iff)
    then show ?thesis using that by (simp add: assign_not_VPtr assignNonPointer_empty)
  qed
  moreover have "assign lib parser g val value = (Err ErrUnhandledKind, val, [])" if "unhandled (Type val)"
  proof -
    have "Kind val \<noteq> KPtr" using that by (auto simp: Kind_KPtr_iff)
    then show ?thesis using that by (simp add: assign_not_VPtr assignNonPointer_unhandled)
  qed
  ultimately show ?thesis
    by (simp add: assign_VPtr assignPointer_empty assignPointer_unhandled)
qed


theorem assign_empty_untouched_witness:
  "assign testPlatform testParser initGlobals (VInt I8 5) [] = (Ok, VInt I8 5, [])
   \<and> assign testPlatform testParser initGlobals (VPtr TTime None) [] = (Ok, VPtr TTime None, [])
   \<and> assign testPlatform testParser initGlobals (VOther Map) ''hello'' = (Err ErrUnhandledKind, VOther Map, [])
   \<and> assign testPlatform testParser initGlobals (VPtr (TOther Slice) None) ''hello''
       = (Err ErrUnhandledKind, VPtr (TOther Slice) None, [])"
  using assign_empty_untouched [of "VInt I8 5" testPlatform testParser initGlobals TTime None]
        assign_empty_untouched [of "VOther Map" testPlatform testParser initGlobals "TOther Slice" None "''hello''"]
  by simp

section \<open>Overflow\<close>

lemma ParseInt_empty: "ParseInt [] = (0, Some ErrSyntax)"
  by (simp add: ParseInt_def)

lemma ParseUint_empty: "ParseUint [] = (0, Some ErrSyntax)"
  by (simp add: ParseUint_def)

lemma Type_TInt: "Type val = TInt k \<Longrightarrow> \<exists>n. val = VInt k n"
  by (cases val) simp_all

lemma Type_TUint: "Type val = TUint k \<Longrightarrow> \<exists>n. val = VUint k n"
  by (cases val) simp_all

lemma Type_TFloat: "Type val = TFloat k \<Longrightarrow> \<exists>x. val = VFloat k x"
  by (cases val) simp_all

lemma overflowFloat32_Finite:
  "MaxFloat32 < \<bar>x\<bar> \<Longrightarrow> \<bar>x\<bar> \<le> MaxFloat64 \<Longrightarrow> overflowFloat32 (Finite x)"
  by (auto simp: overflowFloat32_def float_le_def Let_def abs_if split: if_splits)

lemma overflow_Int:
  assumes "exceeds lib (TInt k) value"
  shows "assignNonPointer_Int lib (VInt k n) value = (Err ErrOverflowSet, VInt k n, [])"
    and "assignPointer_Int lib (TInt k) (VPtr (TInt k) p) value = (Err ErrOverflowSet, VPtr (TInt k) p, [])"
proof -
  obtain x where x: "ParseInt value = (x, None)"
    and r: "sint x < - (2 ^ (intBits (arch lib) k - 1)) \<or> 2 ^ (intBits (arch lib) k - 1) \<le> sint x"
    using assms by (auto split: prod.splits option.splits)
  have ne: "value \<noteq> []" using x by (auto simp: ParseInt_empty)
  have ov: "OverflowInt lib (VInt k m) x = Some True" for m
    using r by (auto simp: OverflowInt_iff)
  show "assignNonPointer_Int lib (VInt k n) value = (Err ErrOverflowSet, VInt k n, [])"
    using ne x ov by (simp add: assignNonPointer_Int_def)
  show "assignPointer_Int lib (TInt k) (VPtr (TInt k) p) value = (Err ErrOverflowSet, VPtr (TInt k) p, [])"
    using ne x ov by (simp add: assignPointer_Int_def Elem_New)
qed

lemma overflow_Uint:
  assumes "exceeds lib (TUint k) value"
  shows "assignNonPointer_Uint lib (VUint k n) value = (Err ErrOverflowSet, VUint k n, [])"
    and "assignPointer_Uint lib (TUint k) (VPtr (TUint k) p) value = (Err ErrOverflowSet, VPtr (TUint k) p, [])"
proof -
  obtain x where x: "ParseUint value = (x, None)"
    and r: "2 ^ uintBits (arch lib) k \<le> unat x"
    using assms by (auto split: prod.splits option.splits)
  have ne: "value \<noteq> []" using x by (auto simp: ParseUint_empty)
  have ov: "OverflowUint lib (VUint k m) x = Some True" for m
    using r by (simp add: OverflowUint_iff)
  show "assignNonPointer_Uint lib (VUint k n) value = (Err ErrOverflowSet, VUint k n, [])"
    using ne x ov by (simp add: assignNonPointer_Uint_def)
  show "assignPointer_Uint lib (TUint k) (VPtr (TUint k) p) value = (Err ErrOverflowSet, VPtr (TUint k) p, [])"
    using ne x ov by (simp add: assignPointer_Uint_def Elem_New)
qed

lemma overflow_Float:
  assumes "exceeds lib (TFloat k) value"
  shows "assignNonPointer_Float lib (VFloat k y) value = (Err ErrOverflowSet, VFloat k y, [])"
    and "assignPointer_Float lib (TFloat k) (VPtr (TFloat k) p) value = (Err ErrOverflowSet, VPtr (TFloat k) p, [])"
proof -
  have k: "k = F32" using assms by (cases k) simp_all
  obtain x where x: "strconv_ParseFloat lib value = (Finite x, None)"
    and r: "MaxFloat32 < \<bar>x\<bar>" "\<bar>x\<bar> \<le> MaxFloat64" and ne: "value \<noteq> []"
    using assms k by (auto split: prod.splits option.splits float64.splits)
  have ov: "OverflowFloat (VFloat F32 m) (Finite x) = Some True" for m
    using r by (simp add: OverflowFloat_def overflowFloat32_Finite)
  show "assignNonPointer_Float lib (VFloat k y) value = (Err ErrOverflowSet, VFloat k y, [])"
    using ne x ov k by (simp add: assignNonPointer_Float_def)
  show "assignPointer_Float lib (TFloat k) (VPtr (TFloat k) p) value = (Err ErrOverflowSet, VPtr (TFloat k) p, [])"
    using ne x ov k by (simp add: assignPointer_Float_def Elem_New)
qed

lemmas strconv_defs = ParseInt_def ParseUint_def isDigit_def maxUint64_def Let_def

lemma ParseInt_200: "ParseInt ''200'' = (200, None)"
  by (simp add: strconv_defs)

lemma ParseUint_256: "ParseUint ''256'' = (256, None)"
  by (simp add: strconv_defs)


text \<open>
  Claim C2: for a destination of signed-integer, unsigned-integer or floating-point
  type \<open>t\<close>, direct (\<open>Type val = t\<close>) or behind a pointer (\<open>Type val = TPtr t\<close>), a
  text that parses but exceeds the width of \<open>t\<close> makes \<^verbatim>\<open>assign\<close> return the overflow
  error, with the destination as it was and no lookup. (An integer exceeds when it is
  outside the range of the width; a float when it is finite and beyond the largest
  \<^verbatim>\<open>float32\<close>; nothing that parses exceeds \<^verbatim>\<open>int64\<close>, \<^verbatim>\<open>uint64\<close> or \<^verbatim>\<open>float64\<close>.)
\<close>

theorem assign_overflow_unwritten:
  assumes "exceeds lib t value" and "Type val = t \<or> Type val = TPtr t"
  shows "assign lib parser g val value = (Err ErrOverflowSet, val, [])"
proof (cases t)
  case (TInt k)
  show ?thesis
    using assms(2)
  proof
    assume "Type val = t"
    then obtain n where "val = VInt k n" using TInt Type_TInt by blast
    then show ?thesis using assms(1) TInt
      by (simp add: assign_not_VPtr Kind_KPtr_iff assignNonPointer_VInt overflow_Int)
  next
    assume "Type val = TPtr t"
    then obtain p where "val = VPtr t p" by (cases val) simp_all
    then show ?thesis using assms(1) TInt
      by (simp add: assign_VPtr assignPointer_TInt overflow_Int)
  qed
next
  case (TUint k)
  show ?thesis
    using assms(2)
  proof
    assume "Type val = t"
    then obtain n where "val = VUint k n" using TUint Type_TUint by blast
    then show ?thesis using assms(1) TUint
      by (simp add: assign_not_VPtr Kind_KPtr_iff assignNonPointer_VUint overflow_Uint)
  next
    assume "Type val = TPtr t"
    then obtain p where "val = VPtr t p" by (cases val) simp_all
    then show ?thesis using assms(1) TUint
      by (simp add: assign_VPtr assignPointer_TUint overflow_Uint)
  qed
next
  case (TFloat k)
  show ?thesis
    using assms(2)
  proof
    assume "Type val = t"
    then obtain y where "val = VFloat k y" using TFloat Type_TFloat by blast
    then show ?thesis using assms(1) TFloat
      by (simp add: assign_not_VPtr Kind_KPtr_iff assignNonPointer_VFloat overflow_Float)
  next
    assume "Type val = TPtr t"
    then obtain p where "val = VPtr t p" by (cases val) simp_all
    then show ?thesis using assms(1) TFloat
      by (simp add: assign_VPtr assignPointer_TFloat overflow_Float)
  qed
qed (use assms(1) in simp_all)

theorem assign_overflow_unwritten_witness:
  "assign testPlatform testParser initGlobals (VInt I8 0) ''200'' = (Err ErrOverflowSet, VInt I8 0, [])
   \<and> assign testPlatform testParser initGlobals (VPtr (TInt I8) None) ''200''
       = (Err ErrOverflowSet, VPtr (TInt I8) None, [])
   \<and> assign testPlatform testParser initGlobals (VUint U8 0) ''256'' = (Err ErrOverflowSet, VUint U8 0, [])
   \<and> assign testPlatform testParser initGlobals (VPtr (TFloat F32) None) ''1e39''
       = (Err ErrOverflowSet, VPtr (TFloat F32) None, [])"
proof -
  have i: "exceeds testPlatform (TInt I8) ''200''"
    by (simp add: ParseInt_200)
  have u: "exceeds testPlatform (TUint U8) ''256''"
    by (simp add: ParseUint_256)
  have f: "exceeds testPlatform (TFloat F32) ''1e39''"
    by (simp add: testPlatform_def MaxFloat32_def MaxFloat64_def)
  show ?thesis
    using assign_overflow_unwritten [OF i, of "VInt I8 0" testParser initGlobals]
          assign_overflow_unwritten [OF i, of "VPtr (TInt I8) None" testParser initGlobals]
          assign_overflow_unwritten [OF u, of "VUint U8 0" testParser initGlobals]
          assign_overflow_unwritten [OF f, of "VPtr (TFloat F32) None" testParser initGlobals]
    by simp
qed

section \<open>Struct recursion\<close>

lemma parseFields_length:
  "parseFields lib parser g fs = (e, fs', ks) \<Longrightarrow> length fs' = length fs"
proof (induction fs arbitrary: e fs' ks)
  case Nil
  then show ?case by (simp add: parseFields.simps)
next
  case (Cons f fs)
  obtain decl field where f: "f = (decl, field)" by (cases f)
  obtain e0 r0 k0 where rest: "parseFields lib parser g fs = (e0, r0, k0)"
    by (cases "parseFields lib parser g fs") auto
  have len: "length r0 = length fs" using Cons.IH rest by blast
  show ?case
    using Cons.prems len rest unfolding f
    by (auto simp: parseFields.simps Let_def split: if_splits prod.splits outcome.splits)
qed

lemma parseFields_append:
  "parseFields lib parser g (pre @ rest) =
     (case parseFields lib parser g pre of
        (Ok, pre', ks1) \<Rightarrow>
          (case parseFields lib parser g rest of
             (e, rest', ks2) \<Rightarrow> (e, pre' @ rest', ks1 @ ks2))
      | (e, pre', ks1) \<Rightarrow> (e, pre' @ rest, ks1))"
proof (induction pre)
  case Nil
  then show ?case by (simp add: parseFields.simps split: prod.splits)
next
  case (Cons f pre)
  obtain decl field where f: "f = (decl, field)" by (cases f)
  show ?case
    unfolding f using Cons.IH
    by (simp add: parseFields.simps Let_def split: prod.splits outcome.splits)
qed

lemma parseFields_skip:
  "\<not> CanSet decl \<Longrightarrow>
     parseFields lib parser g ((decl, field) # fs) =
       (case parseFields lib parser g fs of (e, fs', ks) \<Rightarrow> (e, (decl, field) # fs', ks))"
  by (simp add: parseFields.simps)

lemma parseFields_lookup_error:
  "CanSet decl \<Longrightarrow> IsValid field \<Longrightarrow>
   getValue parser (Tag_Get (Tag decl) keyTag) = (Err e, v, ks) \<Longrightarrow>
     parseFields lib parser g ((decl, field) # fs) = (Err e, (decl, field) # fs, ks)"
  by (simp add: parseFields.simps)

lemma parseFields_assign_error:
  "CanSet decl \<Longrightarrow> IsValid field \<Longrightarrow>
   getValue parser (Tag_Get (Tag decl) keyTag) = (Ok, value, ka) \<Longrightarrow>
   assign lib parser g field value = (Err e, field', kb) \<Longrightarrow>
     parseFields lib parser g ((decl, field) # fs) = (Err e, (decl, field') # fs, ka @ kb)"
  by (simp add: parseFields.simps)

lemma parse_VStruct:
  "parse lib parser g (VStruct n fs) =
     (case parseFields lib parser g fs of (e, fs', ks) \<Rightarrow> (e, VStruct n fs', ks))"
  by (simp add: parse.simps)

lemma Parse_struct:
  "n \<noteq> timeType \<Longrightarrow>
   Parse lib parser g (VPtr t (Some (VStruct n fs))) =
     (case parse lib parser g (VStruct n fs) of
        (e, s, ks) \<Rightarrow> (e, VPtr t (Some s), ks))"
  by (simp add: Parse_def Kind_def IsValid_def assign_not_VPtr assignNonPointer_simple
        parse_VStruct split: prod.splits)

lemmas field_defs = exportedField_def unexportedField_def CanSet_def IsValid_def Tag_Get_def keyTag_def

lemma getValue_integer: "getValue testParser ''integer'' = (Ok, ''-10'', [''integer''])"
  by (simp add: getValue_def testParser_def testStore_def)

lemma getValue_missing:
  "getValue testParser ''hello/float'' = (Err (ExternalError ''no responder found''), [], [''hello/float''])"
  by (simp add: getValue_def testParser_def testStore_def)

lemma assign_int64_minus10:
  "assign testPlatform testParser initGlobals (VInt I64 0) ''-10'' = (Ok, VInt I64 (- 10), [])"
  by (simp add: assign_not_VPtr Kind_def assignNonPointer_VInt assignNonPointer_Int_def
        strconv_defs OverflowInt_def SetInt_def Setter_return_def testPlatform_def)

lemma parseFields_Integer:
  "parseFields testPlatform testParser initGlobals [(exportedField ''Integer'' ''integer'', VInt I64 0)]
     = (Ok, [(exportedField ''Integer'' ''integer'', VInt I64 (- 10))], [''integer''])"
  by (simp add: parseFields.simps field_defs getValue_integer assign_int64_minus10)


text \<open>
  Claim C3: in a struct whose fields before \<open>(decl, field)\<close> are processed without
  error (\<open>pre\<close>, giving \<open>pre'\<close>), let \<open>(decl, field)\<close> be settable and be the first to
  fail with the error \<open>e\<close>, in its lookup or in its assignment. Then \<^verbatim>\<open>parse\<close>, and
  \<^verbatim>\<open>Parse\<close> on a pointer to that struct, return exactly \<open>e\<close>; the fields before are
  as they were written (\<open>pre'\<close>, no rollback), the fields after (\<open>post\<close>) are as they
  were, and no key of a later field has been looked up.
\<close>

theorem parse_first_error_aborts:
  assumes pre: "parseFields lib parser g pre = (Ok, pre', ks1)"
    and settable: "CanSet decl" "IsValid field"
    and fails:
      "(getValue parser (Tag_Get (Tag decl) keyTag) = (Err e, v, ks2) \<and> field' = field)
       \<or> (\<exists>value ka kb.
             getValue parser (Tag_Get (Tag decl) keyTag) = (Ok, value, ka)
             \<and> assign lib parser g field value = (Err e, field', kb) \<and> ks2 = ka @ kb)"
    and n: "n \<noteq> timeType"
  shows "parse lib parser g (VStruct n (pre @ (decl, field) # post))
           = (Err e, VStruct n (pre' @ (decl, field') # post), ks1 @ ks2)
       \<and> Parse lib parser g (VPtr t (Some (VStruct n (pre @ (decl, field) # post))))
           = (Err e, VPtr t (Some (VStruct n (pre' @ (decl, field') # post))), ks1 @ ks2)"
proof -
  have one: "parseFields lib parser g ((decl, field) # post) = (Err e, (decl, field') # post, ks2)"
    using fails settable
    by (auto simp: parseFields_lookup_error parseFields_assign_error)
  have all: "parseFields lib parser g (pre @ (decl, field) # post)
               = (Err e, pre' @ (decl, field') # post, ks1 @ ks2)"
    by (simp add: parseFields_append pre one)
  have p: "parse lib parser g (VStruct n (pre @ (decl, field) # post))
           = (Err e, VStruct n (pre' @ (decl, field') # post), ks1 @ ks2)"
    by (simp add: parse_VStruct all)
  show ?thesis
    using n by (simp add: Parse_struct p)
qed

theorem parse_first_error_aborts_witness:
  "parse testPlatform testParser initGlobals
     (VStruct ''main.Config''
        [(exportedField ''Integer'' ''integer'', VInt I64 0),
         (exportedField ''Float'' ''hello/float'', VFloat F64 (Finite 0)),
         (exportedField ''Boolean'' ''boolean'', VBool False)])
   = (Err (ExternalError ''no responder found''),
      VStruct ''main.Config''
        [(exportedField ''Integer'' ''integer'', VInt I64 (- 10)),
         (exportedField ''Float'' ''hello/float'', VFloat F64 (Finite 0)),
         (exportedField ''Boolean'' ''boolean'', VBool False)],
      [''integer'', ''hello/float''])"
proof -
  have s: "CanSet (exportedField ''Float'' ''hello/float'')" "IsValid (VFloat F64 (Finite 0))"
    by (simp_all add: field_defs)
  have f: "(getValue testParser (Tag_Get (Tag (exportedField ''Float'' ''hello/float'')) keyTag)
              = (Err (ExternalError ''no responder found''), [], [''hello/float''])
            \<and> VFloat F64 (Finite 0) = VFloat F64 (Finite 0))
         \<or> (\<exists>value ka kb.
               getValue testParser (Tag_Get (Tag (exportedField ''Float'' ''hello/float'')) keyTag) = (Ok, value, ka)
               \<and> assign testPlatform testParser initGlobals (VFloat F64 (Finite 0)) value
                    = (Err (ExternalError ''no responder found''), VFloat F64 (Finite 0), kb)
               \<and> [''hello/float''] = ka @ kb)"
    using getValue_missing by (simp add: field_defs)
  have n: "''main.Config'' \<noteq> timeType" by (simp add: timeType_def)
  show ?thesis
    using parse_first_error_aborts [OF parseFields_Integer s f n,
        of "[(exportedField ''Boolean'' ''boolean'', VBool False)]" "TStruct ''main.Config'' []"]
    by simp
qed


text \<open>
  Claim C9: a field that is not settable, anywhere in a struct, is skipped before its tag
  is read: the outcome of the loop, the keys looked up and every other field are what
  they are for the struct without that field, whatever key its tag names, and the field
  keeps its value.
\<close>

theorem parse_skips_unsettable:
  assumes "\<not> CanSet decl"
  shows "parseFields lib parser g (pre @ (decl, field) # post) =
           (case parseFields lib parser g (pre @ post) of
              (e, r, ks) \<Rightarrow> (e, take (length pre) r @ (decl, field) # drop (length pre) r, ks))"
proof -
  obtain e1 pre' k1 where pre: "parseFields lib parser g pre = (e1, pre', k1)"
    by (cases "parseFields lib parser g pre") auto
  obtain e2 post' k2 where post: "parseFields lib parser g post = (e2, post', k2)"
    by (cases "parseFields lib parser g post") auto
  have len: "length pre' = length pre" using pre by (rule parseFields_length)
  show ?thesis
    using assms len
    by (cases e1) (simp_all add: parseFields_append pre post parseFields_skip)
qed


theorem parse_skips_unsettable_witness:
  "parseFields testPlatform testParser initGlobals
     [(unexportedField ''text'' ''hello/float'', VString []),
      (exportedField ''Integer'' ''integer'', VInt I64 0)]
   = (Ok,
      [(unexportedField ''text'' ''hello/float'', VString []),
       (exportedField ''Integer'' ''integer'', VInt I64 (- 10))],
      [''integer''])"
proof -
  have "\<not> CanSet (unexportedField ''text'' ''hello/float'')" by (simp add: field_defs)
  from parse_skips_unsettable [OF this, of testPlatform testParser initGlobals "[]" "VString []"
      "[(exportedField ''Integer'' ''integer'', VInt I64 0)]"]
  show ?thesis by (simp add: parseFields_Integer)
qed

section \<open>Pointer depth\<close>

lemma ParseInt_100: "ParseInt ''100'' = (100, None)"
  by (simp add: strconv_defs)


text \<open>
  Claim C4 fails on the code: for \<^verbatim>\<open>T = int8\<close> and the text \<^verbatim>\<open>100\<close> a direct
  destination receives 100, but a destination of type \<^verbatim>\<open>*int8\<close> makes
  \<^verbatim>\<open>assignPointer\<close> panic: it stores the parsed \<^verbatim>\<open>int64\<close> with \<^verbatim>\<open>Value.Set\<close>, which
  requires the types to agree, where \<^verbatim>\<open>assignNonPointer\<close> uses \<^verbatim>\<open>SetInt\<close>.
\<close>

theorem pointer_depth_int8_panics:
  "assign testPlatform testParser initGlobals (VInt I8 0) ''100'' = (Ok, VInt I8 100, [])
   \<and> assign testPlatform testParser initGlobals (VPtr (TInt I8) None) ''100''
       = (Panic NotAssignable, VPtr (TInt I8) None, [])"
  by (simp add: assign_not_VPtr assign_VPtr Kind_def assignNonPointer_VInt assignPointer_TInt
        assignNonPointer_Int_def assignPointer_Int_def ParseInt_100 OverflowInt_def SetInt_def
        Setter_return_def testPlatform_def Elem_New Elem_Set_def New_def Value_Set_def IsValid_def)


text \<open>
  Where the pointee is exactly \<^verbatim>\<open>int64\<close> the four depths do agree, and the chain is
  built from the innermost cell outwards.
\<close>

lemma pointer_depth_int64_uniform:
  "assign testPlatform testParser initGlobals (VInt I64 0) ''100'' = (Ok, VInt I64 100, [])"
  "assign testPlatform testParser initGlobals (VPtr (TInt I64) None) ''100''
     = (Ok, wrapPtr (Suc 0) (VInt I64 100), [])"
  "assign testPlatform testParser initGlobals (VPtr (TPtr (TInt I64)) None) ''100''
     = (Ok, wrapPtr (Suc (Suc 0)) (VInt I64 100), [])"
  "assign testPlatform testParser initGlobals (VPtr (TPtr (TPtr (TInt I64))) None) ''100''
     = (Ok, wrapPtr (Suc (Suc (Suc 0))) (VInt I64 100), [])"
  by (simp_all add: assign_not_VPtr assign_VPtr Kind_def assignNonPointer_VInt assignPointer_TInt
        assignPointer_TPtr
        assignNonPointer_Int_def assignPointer_Int_def ParseInt_100 OverflowInt_def SetInt_def
        Setter_return_def Set_return_def testPlatform_def Elem_New Elem_Set_def New_def Value_Set_def
        IsValid_def)


section \<open>The value resolver\<close>

text \<open>
  Claim C5 fails on the code: when the store answers a non-empty key with a nil entry
  and a nil error (the key is absent), \<^verbatim>\<open>getValue\<close> dereferences the nil entry and
  panics; the bind does not end with an error.
\<close>

theorem getValue_absent_entry_panics:
  "getValue emptyStoreParser ''string/hello'' = (Panic NilPointerDereference, [], [''string/hello''])
   \<and> parse testPlatform emptyStoreParser initGlobals
         (VStruct ''main.Config'' [(exportedField ''String'' ''string/hello'', VString [])])
       = (Panic NilPointerDereference,
          VStruct ''main.Config'' [(exportedField ''String'' ''string/hello'', VString [])],
          [''string/hello''])"
  by (simp add: getValue_def emptyStoreParser_def timeType_def parse_VStruct
        parseFields.simps field_defs Let_def)

text \<open>The panic reaches the caller of \<^verbatim>\<open>Parse\<close>.\<close>

lemma Parse_absent_entry_panics:
  "Parse testPlatform emptyStoreParser initGlobals
         (VPtr (TStruct ''main.Config'' [(exportedField ''String'' ''string/hello'', TString)])
            (Some (VStruct ''main.Config'' [(exportedField ''String'' ''string/hello'', VString [])])))
       = (Panic NilPointerDereference,
          VPtr (TStruct ''main.Config'' [(exportedField ''String'' ''string/hello'', TString)])
            (Some (VStruct ''main.Config'' [(exportedField ''String'' ''string/hello'', VString [])])),
          [''string/hello''])"
  by (simp add: getValue_def emptyStoreParser_def Parse_struct timeType_def parse_VStruct
        parseFields.simps field_defs Let_def)

text \<open>An error that the store reports does propagate.\<close>

lemma getValue_lookup_error:
  "consulKey \<noteq> [] \<Longrightarrow> consulKV parser consulKey = (pair, Some err) \<Longrightarrow>
     getValue parser consulKey = (Err err, [], [consulKey])"
  by (cases pair) (simp_all add: getValue_def)


section \<open>The entry point\<close>

lemma getRecursivePointerVal_leaf:
  "Kind leaf \<noteq> KPtr \<Longrightarrow> getRecursivePointerVal leaf = leaf"
  by (cases leaf) (simp_all add: Kind_def)

lemma getRecursivePointerVal_wrapPtr:
  "Kind leaf \<noteq> KPtr \<Longrightarrow> getRecursivePointerVal (wrapPtr n leaf) = leaf"
  by (induction n) (simp_all add: getRecursivePointerVal_leaf)

lemma putRecursivePointerVal_leaf:
  "Kind leaf \<noteq> KPtr \<Longrightarrow> putRecursivePointerVal leaf new = new"
  by (cases leaf) (simp_all add: Kind_def)

lemma putRecursivePointerVal_same:
  "Kind leaf \<noteq> KPtr \<Longrightarrow> putRecursivePointerVal (wrapPtr n leaf) leaf = wrapPtr n leaf"
  by (induction n) (simp_all add: putRecursivePointerVal_leaf)

lemma Kind_wrapPtr_Suc: "Kind (wrapPtr (Suc n) leaf) = KPtr" "IsValid (wrapPtr (Suc n) leaf)"
  by (simp_all add: Kind_def IsValid_def)


text \<open>
  Claim C6: a target whose kind is not \<^verbatim>\<open>Ptr\<close> (a struct passed by value, a nil
  interface) makes \<^verbatim>\<open>Parse\<close> return the invalid-target error, with no lookup and
  the target as it was; on a chain of one or more non-nil pointers, \<^verbatim>\<open>Parse\<close> unwinds
  every layer down to the first referent that is not a pointer and assigns there, with
  the empty key.
\<close>

theorem Parse_target:
  "(Kind target \<noteq> KPtr \<longrightarrow> Parse lib parser g target = (Err ErrNonPointerType, target, []))
   \<and> (Kind leaf \<noteq> KPtr \<longrightarrow>
        getRecursivePointerVal (wrapPtr (Suc n) leaf) = leaf
        \<and> Parse lib parser g (wrapPtr (Suc n) leaf) =
            (case assign lib parser g leaf [] of
               (err, leaf', ks) \<Rightarrow> (err, putRecursivePointerVal (wrapPtr (Suc n) leaf) leaf', ks)))"
proof -
  have "Parse lib parser g target = (Err ErrNonPointerType, target, [])" if "Kind target \<noteq> KPtr"
    using that by (simp add: Parse_def)
  moreover have "Parse lib parser g (wrapPtr (Suc n) leaf) =
            (case assign lib parser g leaf [] of
               (err, leaf', ks) \<Rightarrow> (err, putRecursivePointerVal (wrapPtr (Suc n) leaf) leaf', ks))"
    if "Kind leaf \<noteq> KPtr"
    using that getRecursivePointerVal_wrapPtr [OF that, of "Suc n"] Kind_wrapPtr_Suc [of n leaf]
    by (simp only: Parse_def Let_def) simp
  ultimately show ?thesis
    using getRecursivePointerVal_wrapPtr [of leaf "Suc n"] by blast
qed

theorem Parse_target_witness:
  "Parse testPlatform testParser initGlobals (VStruct ''main.Config'' [(exportedField ''Integer'' ''integer'', VInt I64 0)])
     = (Err ErrNonPointerType, VStruct ''main.Config'' [(exportedField ''Integer'' ''integer'', VInt I64 0)], [])
   \<and> Parse testPlatform testParser initGlobals
       (wrapPtr (Suc (Suc (Suc 0))) (VStruct ''main.Config'' [(exportedField ''Integer'' ''integer'', VInt I64 0)]))
     = (Ok, wrapPtr (Suc (Suc (Suc 0))) (VStruct ''main.Config'' [(exportedField ''Integer'' ''integer'', VInt I64 (- 10))]),
        [''integer''])"
proof -
  have k: "Kind (VStruct ''main.Config'' [(exportedField ''Integer'' ''integer'', VInt I64 0)]) \<noteq> KPtr"
    by (simp add: Kind_def)
  have a: "assign testPlatform testParser initGlobals
             (VStruct ''main.Config'' [(exportedField ''Integer'' ''integer'', VInt I64 0)]) []
           = (Ok, VStruct ''main.Config'' [(exportedField ''Integer'' ''integer'', VInt I64 (- 10))], [''integer''])"
    by (simp add: assign_not_VPtr k assignNonPointer_simple timeType_def parse_VStruct parseFields_Integer)
  show ?thesis
    using Parse_target [of "VStruct ''main.Config'' [(exportedField ''Integer'' ''integer'', VInt I64 0)]"
        testPlatform testParser initGlobals
        "VStruct ''main.Config'' [(exportedField ''Integer'' ''integer'', VInt I64 0)]" "Suc (Suc 0)"]
      k a
    by (simp add: field_defs)
qed


lemma primitive_emptyGuarded: "primitive t \<Longrightarrow> emptyGuarded t"
  by (cases t) simp_all

lemma primitive_not_ptr: "primitive (Type leaf) \<Longrightarrow> Kind leaf \<noteq> KPtr"
  by (auto simp: Kind_KPtr_iff)


text \<open>
  Claim C8: on a chain of one or more non-nil pointers that ends in a boolean, an
  integer, a float, a string or an interface, \<^verbatim>\<open>Parse\<close> returns no error, looks
  nothing up and leaves the target as it was.
\<close>

theorem Parse_primitive_noop:
  assumes "primitive (Type leaf)"
  shows "Parse lib parser g (wrapPtr (Suc n) leaf) = (Ok, wrapPtr (Suc n) leaf, [])"
proof -
  have k: "Kind leaf \<noteq> KPtr" using assms by (rule primitive_not_ptr)
  have a: "assign lib parser g leaf [] = (Ok, leaf, [])"
    using assms k by (simp add: assign_not_VPtr assignNonPointer_empty primitive_emptyGuarded)
  show ?thesis
    using getRecursivePointerVal_wrapPtr [OF k, of "Suc n"] Kind_wrapPtr_Suc [of n leaf]
      putRecursivePointerVal_same [OF k, of "Suc n"] a
    by (simp only: Parse_def Let_def) simp
qed


theorem Parse_primitive_noop_witness:
  "Parse testPlatform testParser initGlobals (wrapPtr (Suc (Suc (Suc 0))) (VInterface None))
     = (Ok, wrapPtr (Suc (Suc (Suc 0))) (VInterface None), [])"
proof -
  have "primitive (Type (VInterface None))" by simp
  from Parse_primitive_noop [OF this] show ?thesis .
qed


section \<open>The temporal layout\<close>

lemma assign_time:
  "value \<noteq> [] \<Longrightarrow>
   assign lib parser g (VTime x) value =
     (case time_Parse lib (timeLayout g) value of
        (tv, Some err) \<Rightarrow> (Err err, VTime x, [])
      | (tv, None) \<Rightarrow> (Ok, VTime tv, []))"
  "value \<noteq> [] \<Longrightarrow>
   assign lib parser g (VPtr TTime p) value =
     (case time_Parse lib (timeLayout g) value of
        (tv, Some err) \<Rightarrow> (Err err, VPtr TTime p, [])
      | (tv, None) \<Rightarrow> (Ok, VPtr TTime (Some (VTime tv)), []))"
  by (simp_all add: assign_not_VPtr assign_VPtr Kind_def assignNonPointer_simple assignPointer_simple
        assignNonPointer_Time_def assignPointer_Time_def Set_return_def Value_Set_def IsValid_def
        split: prod.splits option.splits)

lemma time_Parse_test:
  "time_Parse testPlatform RFC3339 ''2019-02-01T00:00:00Z'' = (Instant 1548979200000000000, None)"
  "time_Parse testPlatform RFC3339Nano ''2019-02-01T00:00:00Z'' = (ZeroTime, Some (ExternalError ''parsing time''))"
  "time_Parse testPlatform ''not a layout'' ''2019-02-01T00:00:00Z'' = (ZeroTime, Some (ExternalError ''parsing time''))"
  by (simp_all add: testPlatform_def RFC3339_def RFC3339Nano_def)


text \<open>
  Claim C7: \<^verbatim>\<open>SetTimeLayout\<close> with the empty string returns \<^verbatim>\<open>ErrEmptyLayout\<close> and
  leaves the package variables as they were; with a non-empty string it returns no error
  and sets the layout, which every later temporal parse (direct or behind a pointer)
  hands to \<^verbatim>\<open>time.Parse\<close>.
\<close>

theorem SetTimeLayout_contract:
  "SetTimeLayout parser [] g = (Some ErrEmptyLayout, g)
   \<and> (layout \<noteq> [] \<longrightarrow>
        SetTimeLayout parser layout g = (None, g\<lparr>timeLayout := layout\<rparr>)
        \<and> (value \<noteq> [] \<longrightarrow>
             assign lib parser (snd (SetTimeLayout parser layout g)) (VTime x) value =
               (case time_Parse lib layout value of
                  (tv, Some err) \<Rightarrow> (Err err, VTime x, [])
                | (tv, None) \<Rightarrow> (Ok, VTime tv, []))
             \<and> assign lib parser (snd (SetTimeLayout parser layout g)) (VPtr TTime p) value =
               (case time_Parse lib layout value of
                  (tv, Some err) \<Rightarrow> (Err err, VPtr TTime p, [])
                | (tv, None) \<Rightarrow> (Ok, VPtr TTime (Some (VTime tv)), []))))"
  by (simp add: SetTimeLayout_def assign_time)

theorem SetTimeLayout_contract_witness:
  "SetTimeLayout testParser [] initGlobals = (Some ErrEmptyLayout, initGlobals)
   \<and> SetTimeLayout testParser RFC3339Nano initGlobals = (None, \<lparr> timeLayout = RFC3339Nano \<rparr>)
   \<and> assign testPlatform testParser (snd (SetTimeLayout testParser RFC3339Nano initGlobals))
        (VTime ZeroTime) ''2019-02-01T00:00:00Z''
       = (Err (ExternalError ''parsing time''), VTime ZeroTime, [])"
proof -
  have ne: "RFC3339Nano \<noteq> []" "''2019-02-01T00:00:00Z'' \<noteq> []"
    by (simp_all add: RFC3339Nano_def)
  show ?thesis
    using SetTimeLayout_contract [of testParser initGlobals RFC3339Nano "''2019-02-01T00:00:00Z''"
          testPlatform ZeroTime None] ne
    by (auto simp add: time_Parse_test initGlobals_def)
qed


text \<open>
  Claim C10: every non-empty string is accepted as a layout, meaningful or not; the
  layout is a package variable, not a field of the parser: the setter does the same
  through any parser, and a temporal parse through another parser uses the layout that
  was set.
\<close>

theorem SetTimeLayout_global:
  assumes "layout \<noteq> []"
  shows "SetTimeLayout p1 layout g = (None, g\<lparr>timeLayout := layout\<rparr>)
       \<and> SetTimeLayout p2 layout g = SetTimeLayout p1 layout g
       \<and> (value \<noteq> [] \<longrightarrow>
            assign lib p2 (snd (SetTimeLayout p1 layout g)) (VTime x) value =
              (case time_Parse lib layout value of
                 (tv, Some err) \<Rightarrow> (Err err, VTime x, [])
               | (tv, None) \<Rightarrow> (Ok, VTime tv, [])))"
  using assms by (simp add: SetTimeLayout_def assign_time)

theorem SetTimeLayout_global_witness:
  "SetTimeLayout testParser ''not a layout'' initGlobals = (None, \<lparr> timeLayout = ''not a layout'' \<rparr>)
   \<and> SetTimeLayout emptyStoreParser ''not a layout'' initGlobals
       = SetTimeLayout testParser ''not a layout'' initGlobals
   \<and> assign testPlatform emptyStoreParser (snd (SetTimeLayout testParser ''not a layout'' initGlobals))
        (VTime ZeroTime) ''2019-02-01T00:00:00Z''
       = (Err (ExternalError ''parsing time''), VTime ZeroTime, [])"
proof -
  have ne: "''not a layout'' \<noteq> []" by simp
  show ?thesis
    using SetTimeLayout_global [OF ne, of testParser initGlobals emptyStoreParser
      "''2019-02-01T00:00:00Z''" testPlatform ZeroTime]
    by (auto simp add: time_Parse_test initGlobals_def)
qed

end
